theory Spec2Isabelle
  imports Complex_Main
begin

section \<open>Tensors\<close>

text \<open>
  The rate-estimation core of \<^verbatim>\<open>src/network/hyperprior.py\<close> computes on dense
  floating-point tensors. The embedding keeps the forward values:
  \<^item> an element of a tensor is a \<^typ>\<open>real\<close>, standing for a finite floating-point
    number; a tensor of rank \<open>n\<close> is an \<open>n\<close>-fold nested list in the order of its
    dimensions, and a dimension below one of size 0 cannot be read off such a list;
  \<^item> the sums and differences of \<^verbatim>\<open>_quantize\<close> (\<^verbatim>\<open>x + noise\<close>, \<^verbatim>\<open>x - means\<close>,
    \<^verbatim>\<open>x + 0.5\<close>, \<^verbatim>\<open>x + means\<close>) are rounded as the floating-point format of the tensors
    rounds them: the quantizer and the forward passes take the rounding \<open>rnd\<close> of that
    format as their first argument, of which \<open>round_to_nearest\<close> below is the instance
    of a binary format; the other arithmetic, and \<open>exp\<close>, \<open>ln\<close>, \<open>tanh\<close>, are
    exact, so that no statement below is one about the rounding of these;
  \<^item> a scalar result of the entropy estimate is a \<^typ>\<open>real option\<close>: \<open>None\<close> when
    the floating-point value is not a finite number (NaN or an infinity);
  \<^item> gradient tracking is not represented: \<open>detach\<close> returns its argument;
  \<^item> a random draw is an explicit argument of the function that draws it;
  \<^item> the errors that the file itself raises (\<^verbatim>\<open>raise\<close>, \<^verbatim>\<open>assert\<close>, a Python
    division by zero) are values of the type \<open>error\<close>; an error raised inside
    \<^verbatim>\<open>torch\<close> on operands whose shapes do not fit is not represented, and on such
    operands the elementwise operations below pair the entries that exist.
\<close>

type_synonym tensor2 = "real list list"
type_synonym tensor3 = "real list list list"
type_synonym tensor4 = "real list list list list"
type_synonym tensor5 = "real list list list list list"

datatype error =
    NotImplementedError
  | AssertionError string
  | ValueError string
  | ZeroDivisionError

definition broadcast :: "('a \<Rightarrow> 'b \<Rightarrow> 'c) \<Rightarrow> 'a list \<Rightarrow> 'b list \<Rightarrow> 'c list" where
  \<comment> \<open>A binary operation along one dimension: a dimension of size 1 is expanded to the
      size of the other operand, equal sizes are paired position by position.\<close>
  "broadcast f xs ys =
     (case xs of
        [x] \<Rightarrow> map (f x) ys
      | _ \<Rightarrow> (case ys of [y] \<Rightarrow> map (\<lambda>x. f x y) xs | _ \<Rightarrow> map2 f xs ys))"

definition map3 :: "(real \<Rightarrow> real) \<Rightarrow> tensor3 \<Rightarrow> tensor3" where
  "map3 f = map (map (map f))"

definition map4 :: "(real \<Rightarrow> real) \<Rightarrow> tensor4 \<Rightarrow> tensor4" where
  "map4 f = map (map (map (map f)))"

definition map5 :: "(real \<Rightarrow> real) \<Rightarrow> tensor5 \<Rightarrow> tensor5" where
  "map5 f = map (map (map (map (map f))))"

definition elementwise3 :: "(real \<Rightarrow> real \<Rightarrow> real) \<Rightarrow> tensor3 \<Rightarrow> tensor3 \<Rightarrow> tensor3" where
  "elementwise3 f = broadcast (broadcast (broadcast f))"

definition elementwise4 :: "(real \<Rightarrow> real \<Rightarrow> real) \<Rightarrow> tensor4 \<Rightarrow> tensor4 \<Rightarrow> tensor4" where
  "elementwise4 f = broadcast (broadcast (broadcast (broadcast f)))"

definition elementwise5 :: "(real \<Rightarrow> real \<Rightarrow> real) \<Rightarrow> tensor5 \<Rightarrow> tensor5 \<Rightarrow> tensor5" where
  "elementwise5 f = broadcast (broadcast (broadcast (broadcast (broadcast f))))"

definition size1 :: "'a list list \<Rightarrow> nat" where
  \<comment> \<open>The size of the second dimension, read off the first entry of the outer one.\<close>
  "size1 t = (case t of [] \<Rightarrow> 0 | s # _ \<Rightarrow> length s)"

definition size2 :: "'a list list list \<Rightarrow> nat" where
  "size2 t = (case t of [] \<Rightarrow> 0 | s # _ \<Rightarrow> size1 s)"

definition size3 :: "'a list list list list \<Rightarrow> nat" where
  "size3 t = (case t of [] \<Rightarrow> 0 | s # _ \<Rightarrow> size2 s)"

definition floor_t :: "real \<Rightarrow> real" where
  \<comment> \<open>\<^verbatim>\<open>torch.floor\<close> on one element: the result is again a floating-point value.\<close>
  "floor_t v = real_of_int \<lfloor>v\<rfloor>"

definition detach :: "'a \<Rightarrow> 'a" where
  \<comment> \<open>\<^verbatim>\<open>Tensor.detach()\<close> cuts the tensor out of the gradient graph; its forward
      value is the tensor itself.\<close>
  "detach t = t"

definition round_to_nearest :: "nat \<Rightarrow> real \<Rightarrow> real" where
  \<comment> \<open>Rounding to the nearest number of a binary floating-point format with \<open>p\<close> bits
      of precision, a tie going to the even significand; the range of the exponent is not
      bounded. \<open>p = 24\<close> is \<open>float32\<close>, \<open>p = 53\<close> is \<open>float64\<close>.\<close>
  "round_to_nearest p v =
     (if v = 0 then 0
      else
        (let ulp = 2 powr real_of_int (\<lfloor>log 2 \<bar>v\<bar>\<rfloor> - int p + 1);
             q = v / ulp;
             n = \<lfloor>q\<rfloor>
         in ulp * real_of_int
              (if q - real_of_int n < 1 / 2 then n
               else if 1 / 2 < q - real_of_int n then n + 1
               else if even n then n else n + 1)))"

section \<open>Constants and the result record\<close>

definition MIN_SCALE :: real where
  "MIN_SCALE = 0.11"

definition LOG_SCALES_MIN :: real where
  "LOG_SCALES_MIN = - 3"

definition MIN_LIKELIHOOD :: real where
  "MIN_LIKELIHOOD = 1 / 10 ^ 9"

definition MAX_LIKELIHOOD :: real where
  "MAX_LIKELIHOOD = 1000"

definition SMALL_HYPERLATENT_FILTERS :: int where
  "SMALL_HYPERLATENT_FILTERS = 192"

definition LARGE_HYPERLATENT_FILTERS :: int where
  "LARGE_HYPERLATENT_FILTERS = 320"

record HyperInfo =
  decoded :: tensor4
  latent_nbpp :: "real option"
  hyperlatent_nbpp :: "real option"
  total_nbpp :: "real option"
  latent_qbpp :: "real option"
  hyperlatent_qbpp :: "real option"
  total_qbpp :: "real option"
  bitstring :: "string option"
  side_bitstring :: "string option"

definition and_then :: "error + 'a \<Rightarrow> ('a \<Rightarrow> error + 'b) \<Rightarrow> error + 'b" where
  \<comment> \<open>Sequencing of two steps of which the first may raise.\<close>
  "and_then m f = (case m of Inl e \<Rightarrow> Inl e | Inr v \<Rightarrow> f v)"

definition lower_bound_toward :: "real \<Rightarrow> real \<Rightarrow> real" where
  \<comment> \<open>Modelled from the spec: the forward value of \<^verbatim>\<open>maths.LowerBoundToward.apply\<close>
      on one element; \<^verbatim>\<open>src.helpers.maths\<close> is not among the sources. The
      specification gives \<open>clamp_toward(x, bound) = max(x, bound)\<close> elementwise.\<close>
  "lower_bound_toward v bound = max v bound"

definition elements4 :: "tensor4 \<Rightarrow> real set" where
  "elements4 t = set (concat (concat (concat t)))"

definition sum4 :: "tensor4 \<Rightarrow> real" where
  \<comment> \<open>\<^verbatim>\<open>torch.sum\<close> over all elements.\<close>
  "sum4 t = sum_list (concat (concat (concat t)))"

definition all4 :: "(real \<Rightarrow> bool) \<Rightarrow> tensor4 \<Rightarrow> bool" where
  "all4 P = list_all (list_all (list_all (list_all P)))"

definition fadd :: "real option \<Rightarrow> real option \<Rightarrow> real option" where
  \<comment> \<open>The sum of two scalar results: finite when both are.\<close>
  "fadd a b = (case (a, b) of (Some x, Some y) \<Rightarrow> Some (x + y) | _ \<Rightarrow> None)"

definition fdiv :: "real option \<Rightarrow> real \<Rightarrow> real option" where
  \<comment> \<open>A scalar result divided by a finite number: a division by zero gives an infinity
      or NaN.\<close>
  "fdiv a d = (case a of None \<Rightarrow> None | Some x \<Rightarrow> if d = 0 then None else Some (x / d))"

definition np_prod :: "int list \<Rightarrow> int" where
  \<comment> \<open>\<^verbatim>\<open>np.prod\<close> of a tuple of Python integers. Entries in the range of \<open>int64\<close>
      are multiplied in \<open>int64\<close>, where the product wraps around; non-negative entries
      of which one needs \<open>uint64\<close> are multiplied in \<open>uint64\<close>; otherwise the
      product is not taken in a 64-bit integer type.\<close>
  "np_prod shape =
     (let p = prod_list shape
      in if list_all (\<lambda>s. - (2 ^ 63) \<le> s \<and> s < 2 ^ 63) shape
         then (p + 2 ^ 63) mod 2 ^ 64 - 2 ^ 63
         else if list_all (\<lambda>s. 0 \<le> s \<and> s < 2 ^ 64) shape then p mod 2 ^ 64
         else p)"

section \<open>CodingModel\<close>

record CodingModel =
  n_channels :: int
  min_likelihood :: real
  max_likelihood :: real

definition CodingModel_init :: "int \<Rightarrow> real \<Rightarrow> real \<Rightarrow> CodingModel" where
  "CodingModel_init n_channels' min_likelihood' max_likelihood' =
     \<lparr> n_channels = n_channels',
       min_likelihood = min_likelihood',
       max_likelihood = max_likelihood' \<rparr>"

definition quantize ::
    "(real \<Rightarrow> real) \<Rightarrow> tensor4 \<Rightarrow> string \<Rightarrow> tensor4 option \<Rightarrow> tensor4 \<Rightarrow> error + tensor4" where
  \<comment> \<open>\<^verbatim>\<open>CodingModel._quantize(x, mode, means)\<close> on tensors of the format whose
      rounding is \<open>rnd\<close>. The last argument is the sample that
      \<^verbatim>\<open>uniform_(zeros_like(x), -0.5, 0.5)\<close> draws in mode \<^verbatim>\<open>'noise'\<close>. The floor of a
      finite floating-point number is exact.\<close>
  "quantize rnd x mode means quantization_noise =
     (if mode = ''noise'' then Inr (map4 rnd (elementwise4 (+) x quantization_noise))
      else if mode = ''quantize'' then
        (case means of
           Some m \<Rightarrow>
             (let x1 = map4 rnd (elementwise4 (-) x m);
                  x2 = map4 floor_t (map4 (\<lambda>v. rnd (v + 0.5)) x1);
                  x3 = map4 rnd (elementwise4 (+) x2 m)
              in Inr x3)
         | None \<Rightarrow> Inr (map4 floor_t (map4 (\<lambda>v. rnd (v + 0.5)) x)))
      else Inl NotImplementedError)"

definition quantize_latents_st :: "(real \<Rightarrow> real) \<Rightarrow> tensor4 \<Rightarrow> tensor4 option \<Rightarrow> tensor4" where
  \<comment> \<open>\<^verbatim>\<open>CodingModel.quantize_latents_st(inputs, means)\<close>. The sums and differences
      that it shares with \<^verbatim>\<open>_quantize\<close> are rounded by \<open>rnd\<close>; the pair
      \<^verbatim>\<open>delta = floor(values + 0.5) - values\<close>, \<^verbatim>\<open>values + delta\<close> of the
      straight-through estimator is taken in exact arithmetic.\<close>
  "quantize_latents_st rnd inputs means =
     (let values0 = inputs;
          values1 = (case means of Some m \<Rightarrow> map4 rnd (elementwise4 (-) values0 m)
                     | None \<Rightarrow> values0);
          delta = detach
             (elementwise4 (-) (map4 floor_t (map4 (\<lambda>v. rnd (v + 0.5)) values1)) values1);
          values2 = elementwise4 (+) values1 delta;
          values3 = (case means of Some m \<Rightarrow> map4 rnd (elementwise4 (+) values2 m)
                     | None \<Rightarrow> values2)
      in values3)"

definition estimate_entropy :: "tensor4 \<Rightarrow> int list \<Rightarrow> error + real option \<times> real option" where
  \<comment> \<open>\<^verbatim>\<open>CodingModel._estimate_entropy(likelihood, spatial_shape)\<close>, returning
      \<open>(n_bits, bpp)\<close>. The logarithm of an entry that is not positive is \<open>-inf\<close> or
      NaN, and so is then the sum; \<^verbatim>\<open>batch_size * quotient\<close> is zero for an empty
      batch.\<close>
  "estimate_entropy likelihood spatial_shape =
     (let EPS = 1 / 10 ^ 9;
          quotient = - ln 2;
          batch_size = length likelihood
      in if length spatial_shape \<noteq> 2 then Inl (AssertionError ''Mispecified spatial dims'')
         else
           (let n_pixels = np_prod spatial_shape;
                shifted = map4 (\<lambda>v. v + EPS) likelihood;
                log_likelihood = (if all4 (\<lambda>v. 0 < v) shifted then Some (map4 ln shifted) else None);
                n_bits = fdiv (map_option sum4 log_likelihood) (real batch_size * quotient);
                bpp = fdiv n_bits (real_of_int n_pixels)
            in Inr (n_bits, bpp)))"

definition estimate_entropy_log :: "tensor4 \<Rightarrow> int list \<Rightarrow> error + real option \<times> real option" where
  \<comment> \<open>\<^verbatim>\<open>CodingModel._estimate_entropy_log(log_likelihood, spatial_shape)\<close>.\<close>
  "estimate_entropy_log log_likelihood spatial_shape =
     (let quotient = - ln 2;
          batch_size = length log_likelihood
      in if length spatial_shape \<noteq> 2 then Inl (AssertionError ''Mispecified spatial dims'')
         else
           (let n_pixels = np_prod spatial_shape;
                n_bits = fdiv (Some (sum4 log_likelihood)) (real batch_size * quotient);
                bpp = fdiv n_bits (real_of_int n_pixels)
            in Inr (n_bits, bpp)))"

section \<open>Factorized hyperlatent density\<close>

record HyperpriorDensity =
  init_scale :: real
  filters :: "int list"
  min_likelihood :: real
  max_likelihood :: real
  param_H :: "nat \<Rightarrow> tensor3"
  param_a :: "nat \<Rightarrow> tensor3"
  param_b :: "nat \<Rightarrow> tensor3"

text \<open>
  The registered parameters \<^verbatim>\<open>H_k\<close>, \<^verbatim>\<open>a_k\<close>, \<^verbatim>\<open>b_k\<close>, which the source reads
  with \<^verbatim>\<open>getattr(self, 'H_{}'.format(str(k)))\<close>, are the fields \<open>param_H\<close>,
  \<open>param_a\<close>, \<open>param_b\<close> at index \<open>k\<close>.
\<close>

definition softplus :: "real \<Rightarrow> real" where
  \<comment> \<open>\<^verbatim>\<open>F.softplus\<close> with its defaults \<open>beta = 1\<close>, \<open>threshold = 20\<close>: above the
      threshold the function is the identity.\<close>
  "softplus v = (if v > 20 then v else ln (1 + exp v))"

definition sigmoid :: "real \<Rightarrow> real" where
  "sigmoid v = 1 / (1 + exp (- v))"

definition matmul :: "tensor2 \<Rightarrow> tensor2 \<Rightarrow> tensor2" where
  \<comment> \<open>The product of an \<open>n \<times> m\<close> and an \<open>m \<times> p\<close> matrix, \<open>m > 0\<close>.\<close>
  "matmul A B = map (\<lambda>row. map (\<lambda>col. sum_list (map2 (*) row col)) (transpose B)) A"

definition bmm :: "tensor3 \<Rightarrow> tensor3 \<Rightarrow> tensor3" where
  \<comment> \<open>\<^verbatim>\<open>torch.bmm\<close>: one matrix product per batch entry.\<close>
  "bmm A B = map2 matmul A B"

definition HyperpriorDensity_init ::
    "int \<Rightarrow> real \<Rightarrow> int list \<Rightarrow> real \<Rightarrow> real \<Rightarrow> (nat \<Rightarrow> tensor3) \<Rightarrow> error + HyperpriorDensity" where
  \<comment> \<open>\<^verbatim>\<open>HyperpriorDensity.__init__(n_channels, init_scale, filters, min_likelihood,
      max_likelihood)\<close>. The last argument gives, for each \<open>k\<close>, the sample that
      \<^verbatim>\<open>uniform_(b_k, -0.5, 0.5)\<close> draws. The divisions \<^verbatim>\<open>1 / scale / filters[k + 1]\<close> are
      Python divisions and raise on a zero divisor; \<open>init_scale\<close> is positive.\<close>
  "HyperpriorDensity_init n_channels' init_scale' filters' min_likelihood' max_likelihood' b_sample =
     (let filters1 = [1] @ filters' @ [1];
          scale = init_scale' powr (1 / real (length filters' + 1))
      in if scale = 0 \<or> (\<exists>k \<in> set [0..<length filters' + 1]. filters1 ! (k + 1) = 0)
         then Inl ZeroDivisionError
         else Inr \<lparr> init_scale = init_scale',
                    filters = filters',
                    min_likelihood = min_likelihood',
                    max_likelihood = max_likelihood',
                    param_H = (\<lambda>k.
                       let H_init = ln (exp (1 / scale / real_of_int (filters1 ! (k + 1))) - 1)
                       in replicate (nat n_channels')
                            (replicate (nat (filters1 ! (k + 1)))
                               (replicate (nat (filters1 ! k)) H_init))),
                    param_a = (\<lambda>k.
                       replicate (nat n_channels')
                         (replicate (nat (filters1 ! (k + 1))) (replicate 1 0))),
                    param_b = b_sample \<rparr>)"

definition cdf_logits_stage :: "HyperpriorDensity \<Rightarrow> bool \<Rightarrow> tensor3 \<Rightarrow> nat \<Rightarrow> tensor3" where
  \<comment> \<open>The body of the loop of \<^verbatim>\<open>cdf_logits\<close> for stage \<open>k\<close>, from the value of
      \<^verbatim>\<open>logits\<close> before the stage to its value after it.\<close>
  "cdf_logits_stage self update_parameters logits k =
     (let H_k = param_H self k;
          a_k = param_a self k;
          b_k = param_b self k;
          (H_k, a_k, b_k) =
             (if \<not> update_parameters then (detach H_k, detach a_k, detach b_k)
              else (H_k, a_k, b_k));
          logits = bmm (map3 softplus H_k) logits;
          logits = elementwise3 (+) logits b_k;
          logits = elementwise3 (+) logits (elementwise3 (*) (map3 tanh a_k) (map3 tanh logits))
      in logits)"

definition cdf_logits :: "HyperpriorDensity \<Rightarrow> tensor3 \<Rightarrow> bool \<Rightarrow> tensor3" where
  \<comment> \<open>\<^verbatim>\<open>HyperpriorDensity.cdf_logits(x, update_parameters)\<close>, \<open>x\<close> of shape
      \<open>(C, 1, *)\<close>: the loop over \<^verbatim>\<open>range(len(self.filters) + 1)\<close>.\<close>
  "cdf_logits self x update_parameters =
     foldl (cdf_logits_stage self update_parameters) x [0..<length (filters self) + 1]"

definition reshape_rows :: "nat \<Rightarrow> nat \<Rightarrow> nat \<Rightarrow> real list \<Rightarrow> tensor3" where
  \<comment> \<open>A flat row of \<open>n * h * w\<close> elements, read in row-major order as a tensor of shape
      \<open>(n, h, w)\<close>.\<close>
  "reshape_rows n h w flat =
     map (\<lambda>i. map (\<lambda>j. take w (drop ((i * h + j) * w) flat)) [0..<h]) [0..<n]"

definition HyperpriorDensity_likelihood :: "HyperpriorDensity \<Rightarrow> tensor4 \<Rightarrow> tensor4" where
  \<comment> \<open>\<^verbatim>\<open>HyperpriorDensity.likelihood(x)\<close>, \<open>x\<close> of shape \<open>(N, C, H, W)\<close> with no
      dimension of size 0. \<^verbatim>\<open>permute(1,0,2,3)\<close> exchanges the two outer dimensions;
      \<^verbatim>\<open>reshape(latents, (C, 1, -1))\<close> flattens each channel to one row.\<close>
  "HyperpriorDensity_likelihood self x =
     (let latents = x;
          N = length latents;
          H = size2 latents;
          W = size3 latents;
          latents = transpose latents;
          latents = map (\<lambda>channel. [concat (concat channel)]) latents;
          cdf_upper = cdf_logits self (map3 (\<lambda>v. v + 0.5) latents) True;
          cdf_lower = cdf_logits self (map3 (\<lambda>v. v - 0.5) latents) True;
          sign = map3 uminus (map3 sgn (elementwise3 (+) cdf_upper cdf_lower));
          sign = detach sign;
          likelihood1 = map3 abs
             (elementwise3 (-) (map3 sigmoid (elementwise3 (*) sign cdf_upper))
                               (map3 sigmoid (elementwise3 (*) sign cdf_lower)));
          likelihood1 = map (\<lambda>channel. reshape_rows N H W (concat channel)) likelihood1;
          likelihood1 = transpose likelihood1;
          likelihood1 = map4 (\<lambda>v. lower_bound_toward v (min_likelihood self)) likelihood1
      in likelihood1)"

definition HyperpriorDensity_forward :: "HyperpriorDensity \<Rightarrow> tensor4 \<Rightarrow> tensor4" where
  "HyperpriorDensity_forward self x = HyperpriorDensity_likelihood self x"

section \<open>Hyperprior with a Gaussian or logistic latent density\<close>

record externals =
  HyperpriorAnalysis :: "int \<Rightarrow> int \<Rightarrow> tensor4 \<Rightarrow> tensor4"
  HyperpriorSynthesis_mu :: "int \<Rightarrow> int \<Rightarrow> tensor4 \<Rightarrow> tensor4"
  HyperpriorSynthesis_std :: "int \<Rightarrow> int \<Rightarrow> tensor4 \<Rightarrow> tensor4"
  HyperpriorSynthesisDLMM :: "int \<Rightarrow> int \<Rightarrow> tensor4 \<Rightarrow> tensor4"
  uniform_b :: "nat \<Rightarrow> tensor3"
  standardized_CDF_gaussian :: "real \<Rightarrow> real"
  standardized_CDF_logistic :: "real \<Rightarrow> real"

text \<open>
  What the constructors take from outside the file: the forward maps of the convolutional
  networks as \<^verbatim>\<open>torch\<close> initialises them for \<open>C\<close> and \<open>N\<close> channels (the two
  instances of \<^verbatim>\<open>HyperpriorSynthesis\<close> are initialised independently), the sample drawn
  for the biases of the density, and the two standardized CDFs of \<^verbatim>\<open>src.helpers.maths\<close>
  on one element.
\<close>

record Hyperprior = CodingModel +
  bottleneck_capacity :: int
  scale_lower_bound :: real
  analysis_net :: "tensor4 \<Rightarrow> tensor4"
  synthesis_mu :: "tensor4 \<Rightarrow> tensor4"
  synthesis_std :: "tensor4 \<Rightarrow> tensor4"
  hyperlatent_likelihood :: HyperpriorDensity
  standardized_CDF :: "real \<Rightarrow> real"
  training :: bool

definition latent_likelihood :: "Hyperprior \<Rightarrow> tensor4 \<Rightarrow> tensor4 \<Rightarrow> tensor4 \<Rightarrow> tensor4" where
  \<comment> \<open>\<^verbatim>\<open>CodingModel.latent_likelihood(x, mean, scale)\<close>; \<^verbatim>\<open>self.standardized_CDF\<close> is
      set by the constructor of the subclass. \<open>scale\<close> has no entry 0: \<^verbatim>\<open>forward\<close>
      passes scales bounded from below by \<^verbatim>\<open>scale_lower_bound\<close>, and a division by a
      zero scale, which gives an infinity or NaN in the source, is not represented.\<close>
  "latent_likelihood self x mean scale =
     (let x = elementwise4 (-) x mean;
          x = map4 abs x;
          cdf_upper = map4 (standardized_CDF self)
             (elementwise4 (/) (map4 (\<lambda>v. 0.5 - v) x) scale);
          cdf_lower = map4 (standardized_CDF self)
             (elementwise4 (/) (map4 uminus (map4 (\<lambda>v. 0.5 + v) x)) scale);
          likelihood1 = elementwise4 (-) cdf_upper cdf_lower;
          likelihood1 = map4 (\<lambda>v. lower_bound_toward v (CodingModel.min_likelihood self)) likelihood1
      in likelihood1)"

definition Hyperprior_init ::
    "externals \<Rightarrow> int \<Rightarrow> int \<Rightarrow> string \<Rightarrow> string \<Rightarrow> real \<Rightarrow> error + Hyperprior" where
  \<comment> \<open>\<^verbatim>\<open>Hyperprior.__init__(bottleneck_capacity, hyperlatent_filters, mode,
      likelihood_type, scale_lower_bound)\<close>. A module is created in training mode.\<close>
  "Hyperprior_init ext bottleneck_capacity' hyperlatent_filters mode likelihood_type scale_lower_bound' =
     (let base = CodingModel_init bottleneck_capacity' MIN_LIKELIHOOD MAX_LIKELIHOOD;
          hyperlatent_filters =
             (if mode = ''small'' then SMALL_HYPERLATENT_FILTERS else hyperlatent_filters)
      in and_then
           (HyperpriorDensity_init hyperlatent_filters 10 [3, 3, 3] MIN_LIKELIHOOD MAX_LIKELIHOOD
              (uniform_b ext))
           (\<lambda>density.
              let self = (\<lambda>cdf.
                    \<lparr> n_channels = n_channels base,
                      CodingModel.min_likelihood = CodingModel.min_likelihood base,
                      CodingModel.max_likelihood = CodingModel.max_likelihood base,
                      bottleneck_capacity = bottleneck_capacity',
                      scale_lower_bound = scale_lower_bound',
                      analysis_net = HyperpriorAnalysis ext bottleneck_capacity' hyperlatent_filters,
                      synthesis_mu = HyperpriorSynthesis_mu ext bottleneck_capacity' hyperlatent_filters,
                      synthesis_std = HyperpriorSynthesis_std ext bottleneck_capacity' hyperlatent_filters,
                      hyperlatent_likelihood = density,
                      standardized_CDF = cdf,
                      training = True \<rparr>)
              in if likelihood_type = ''gaussian'' then Inr (self (standardized_CDF_gaussian ext))
                 else if likelihood_type = ''logistic'' then Inr (self (standardized_CDF_logistic ext))
                 else Inl (ValueError (''Unknown likelihood model: '' @ likelihood_type))))"

definition Hyperprior_forward ::
    "(real \<Rightarrow> real) \<Rightarrow> Hyperprior \<Rightarrow> tensor4 \<Rightarrow> int list \<Rightarrow> tensor4 \<Rightarrow> tensor4 \<Rightarrow> error + HyperInfo" where
  \<comment> \<open>\<^verbatim>\<open>Hyperprior.forward(latents, spatial_shape)\<close> on tensors of the format whose
      rounding is \<open>rnd\<close>. The two last arguments are the noise samples drawn for the
      hyperlatents and for the latents; a call in mode \<^verbatim>\<open>'quantize'\<close> draws none.\<close>
  "Hyperprior_forward rnd self latents spatial_shape noise_hyperlatents noise_latents =
     (let hyperlatents = analysis_net self latents in
      and_then (quantize rnd hyperlatents ''noise'' None noise_hyperlatents) (\<lambda>noisy_hyperlatents.
      let noisy_hyperlatent_likelihood =
            HyperpriorDensity_forward (hyperlatent_likelihood self) noisy_hyperlatents in
      and_then (estimate_entropy noisy_hyperlatent_likelihood spatial_shape)
        (\<lambda>(noisy_hyperlatent_bits, noisy_hyperlatent_bpp).
      and_then (quantize rnd hyperlatents ''quantize'' None []) (\<lambda>quantized_hyperlatents.
      let quantized_hyperlatent_likelihood =
            HyperpriorDensity_forward (hyperlatent_likelihood self) quantized_hyperlatents in
      and_then (estimate_entropy quantized_hyperlatent_likelihood spatial_shape)
        (\<lambda>(quantized_hyperlatent_bits, quantized_hyperlatent_bpp).
      let hyperlatents_decoded =
            (if training self then noisy_hyperlatents else quantized_hyperlatents);
          latent_means = synthesis_mu self hyperlatents_decoded;
          latent_scales = synthesis_std self hyperlatents_decoded;
          latent_scales = map4 (\<lambda>v. lower_bound_toward v (scale_lower_bound self)) latent_scales in
      and_then (quantize rnd latents ''noise'' (Some latent_means) noise_latents) (\<lambda>noisy_latents.
      let noisy_latent_likelihood = latent_likelihood self noisy_latents latent_means latent_scales in
      and_then (estimate_entropy noisy_latent_likelihood spatial_shape)
        (\<lambda>(noisy_latent_bits, noisy_latent_bpp).
      and_then (quantize rnd latents ''quantize'' (Some latent_means) []) (\<lambda>quantized_latents.
      let quantized_latent_likelihood =
            latent_likelihood self quantized_latents latent_means latent_scales in
      and_then (estimate_entropy quantized_latent_likelihood spatial_shape)
        (\<lambda>(quantized_latent_bits, quantized_latent_bpp).
      let latents_decoded = quantize_latents_st rnd latents (Some latent_means);
          info = \<lparr> decoded = latents_decoded,
                   latent_nbpp = noisy_latent_bpp,
                   hyperlatent_nbpp = noisy_hyperlatent_bpp,
                   total_nbpp = fadd noisy_latent_bpp noisy_hyperlatent_bpp,
                   latent_qbpp = quantized_latent_bpp,
                   hyperlatent_qbpp = quantized_hyperlatent_bpp,
                   total_qbpp = fadd quantized_latent_bpp quantized_hyperlatent_bpp,
                   bitstring = None,
                   side_bitstring = None \<rparr>
      in Inr info)))))))))"

section \<open>Hyperprior with a discretized logistic mixture\<close>

record HyperpriorDLMM = CodingModel +
  bottleneck_capacity :: int
  scale_lower_bound :: real
  mixture_components :: int
  analysis_net :: "tensor4 \<Rightarrow> tensor4"
  synthesis_DLMM_params :: "tensor4 \<Rightarrow> tensor4"
  hyperlatent_likelihood :: HyperpriorDensity
  standardized_CDF :: "real \<Rightarrow> real"
  training :: bool

definition HyperpriorDLMM_init ::
    "externals \<Rightarrow> int \<Rightarrow> int \<Rightarrow> string \<Rightarrow> string \<Rightarrow> real \<Rightarrow> int \<Rightarrow> error + HyperpriorDLMM" where
  \<comment> \<open>\<^verbatim>\<open>HyperpriorDLMM.__init__(bottleneck_capacity, hyperlatent_filters, mode,
      likelihood_type, scale_lower_bound, mixture_components)\<close>.\<close>
  "HyperpriorDLMM_init ext bottleneck_capacity' hyperlatent_filters mode likelihood_type
       scale_lower_bound' mixture_components' =
     (let base = CodingModel_init bottleneck_capacity' MIN_LIKELIHOOD MAX_LIKELIHOOD
      in if \<not> bottleneck_capacity' \<le> 128
         then Inl (AssertionError ''Will probably run out of memory!'')
         else
           (let hyperlatent_filters =
                  (if mode = ''small'' then SMALL_HYPERLATENT_FILTERS else hyperlatent_filters)
            in and_then
                 (HyperpriorDensity_init hyperlatent_filters 10 [3, 3, 3] MIN_LIKELIHOOD
                    MAX_LIKELIHOOD (uniform_b ext))
                 (\<lambda>density.
                    let self = (\<lambda>cdf.
                          \<lparr> n_channels = n_channels base,
                            CodingModel.min_likelihood = CodingModel.min_likelihood base,
                            CodingModel.max_likelihood = CodingModel.max_likelihood base,
                            bottleneck_capacity = bottleneck_capacity',
                            scale_lower_bound = scale_lower_bound',
                            mixture_components = mixture_components',
                            analysis_net =
                              HyperpriorAnalysis ext bottleneck_capacity' hyperlatent_filters,
                            synthesis_DLMM_params =
                              HyperpriorSynthesisDLMM ext bottleneck_capacity' hyperlatent_filters,
                            hyperlatent_likelihood = density,
                            standardized_CDF = cdf,
                            training = True \<rparr>)
                    in if likelihood_type = ''gaussian''
                       then Inr (self (standardized_CDF_gaussian ext))
                       else if likelihood_type = ''logistic''
                       then Inr (self (standardized_CDF_logistic ext))
                       else Inl (ValueError (''Unknown likelihood model: '' @ likelihood_type)))))"

definition get_num_DLMM_channels :: "int \<Rightarrow> int \<Rightarrow> string list \<Rightarrow> int" where
  "get_num_DLMM_channels C K params = C * K * int (length params)"

definition get_num_mixtures :: "nat \<Rightarrow> nat \<Rightarrow> string list \<Rightarrow> error + nat" where
  \<comment> \<open>\<^verbatim>\<open>K_agg // (len(params) * C)\<close> on sizes of tensors; Python raises on a zero
      divisor.\<close>
  "get_num_mixtures K_agg C params =
     (if length params * C = 0 then Inl ZeroDivisionError
      else Inr (K_agg div (length params * C)))"

definition unpack_likelihood_params ::
    "tensor4 \<Rightarrow> tensor4 \<Rightarrow> error + tensor5 \<times> (tensor5 \<times> tensor5 \<times> tensor5) \<times> nat" where
  \<comment> \<open>\<^verbatim>\<open>unpack_likelihood_params(x, conv_out)\<close>, \<open>x\<close> of shape \<open>(N, C, H, W)\<close>,
      \<open>conv_out\<close> of shape \<open>(N, 3 * C * K, H, W)\<close>. The reshape to
      \<open>(N, 3, C, K, H, W)\<close> splits the channel dimension in row-major order.\<close>
  "unpack_likelihood_params x conv_out =
     (let N = length x; C = size1 x; H = size2 x; W = size3 x;
          K_agg = size1 conv_out
      in and_then (get_num_mixtures K_agg C [''mu'', ''scale'', ''mix'']) (\<lambda>K.
         let conv_out = map (\<lambda>sample.
                 map (\<lambda>g. map (\<lambda>c. map (\<lambda>k. sample ! ((g * C + c) * K + k)) [0..<K]) [0..<C])
                   [0..<3]) conv_out;
             logit_pis = map (\<lambda>sample. sample ! 0) conv_out;
             means = map (\<lambda>sample. sample ! 1) conv_out;
             log_scales = map (\<lambda>sample. sample ! 2) conv_out;
             log_scales = map5 (\<lambda>v. lower_bound_toward v LOG_SCALES_MIN) log_scales;
             x = map (map (\<lambda>plane. [plane])) x
         in Inr (x, (logit_pis, means, log_scales), K)))"

definition logsumexp :: "real list \<Rightarrow> real" where
  "logsumexp vs = ln (sum_list (map exp vs))"

definition logsumexp_dim2 :: "tensor5 \<Rightarrow> tensor4" where
  \<comment> \<open>\<^verbatim>\<open>torch.logsumexp(t, dim=2)\<close> on a tensor of shape \<open>(N, C, K, H, W)\<close>,
      \<open>K > 0\<close>.\<close>
  "logsumexp_dim2 t =
     map (map (\<lambda>components. map (map logsumexp) (map transpose (transpose components)))) t"

definition log_softmax_dim2 :: "tensor5 \<Rightarrow> tensor5" where
  \<comment> \<open>\<^verbatim>\<open>F.log_softmax(t, dim=2)\<close>: the logarithm of the normalising sum over
      dimension 2, kept as a dimension of size 1, is subtracted.\<close>
  "log_softmax_dim2 t =
     elementwise5 (-) t (map (map (\<lambda>components. [components])) (logsumexp_dim2 t))"

definition pmf_mixture_component ::
    "HyperpriorDLMM \<Rightarrow> tensor5 \<Rightarrow> tensor5 \<Rightarrow> tensor5 \<Rightarrow> tensor5" where
  \<comment> \<open>The value of \<^verbatim>\<open>pmf_mixture_component\<close> in \<^verbatim>\<open>latent_log_likelihood_DLMM\<close>, from
      the unpacked \<open>x\<close>, \<open>means\<close> and \<open>log_scales\<close>.\<close>
  "pmf_mixture_component self x means log_scales =
     (let x_centered = elementwise5 (-) x means;
          x_centered = map5 abs x_centered;
          inv_stds = map5 exp (map5 uminus log_scales);
          cdf_upper = map5 (standardized_CDF self)
             (elementwise5 (*) inv_stds (map5 (\<lambda>v. 0.5 - v) x_centered));
          cdf_lower = map5 (standardized_CDF self)
             (elementwise5 (*) inv_stds (map5 (\<lambda>v. - 0.5 - v) x_centered))
      in map5 (\<lambda>v. lower_bound_toward v MIN_LIKELIHOOD) (elementwise5 (-) cdf_upper cdf_lower))"

definition latent_log_likelihood_DLMM :: "HyperpriorDLMM \<Rightarrow> tensor4 \<Rightarrow> tensor4 \<Rightarrow> error + tensor4" where
  \<comment> \<open>\<^verbatim>\<open>HyperpriorDLMM.latent_log_likelihood_DLMM(x, DLMM_params)\<close>, with exact
      logarithms and exponentials: the value is the one that the floating-point
      computation approximates.\<close>
  "latent_log_likelihood_DLMM self x DLMM_params =
     and_then (unpack_likelihood_params x DLMM_params) (\<lambda>(x, (logit_pis, means, log_scales), K).
       let pmf = pmf_mixture_component self x means log_scales;
           log_pmf_mixture_component = map5 ln pmf;
           lse_in = elementwise5 (+) (log_softmax_dim2 logit_pis) log_pmf_mixture_component;
           log_DLMM = logsumexp_dim2 lse_in
       in Inr log_DLMM)"

definition HyperpriorDLMM_forward ::
    "(real \<Rightarrow> real) \<Rightarrow> HyperpriorDLMM \<Rightarrow> tensor4 \<Rightarrow> int list \<Rightarrow> tensor4 \<Rightarrow> tensor4 \<Rightarrow> error + HyperInfo" where
  \<comment> \<open>\<^verbatim>\<open>HyperpriorDLMM.forward(latents, spatial_shape)\<close>, with the two noise samples as
      for \<open>Hyperprior_forward\<close>.\<close>
  "HyperpriorDLMM_forward rnd self latents spatial_shape noise_hyperlatents noise_latents =
     (let hyperlatents = analysis_net self latents in
      and_then (quantize rnd hyperlatents ''noise'' None noise_hyperlatents) (\<lambda>noisy_hyperlatents.
      let noisy_hyperlatent_likelihood =
            HyperpriorDensity_forward (hyperlatent_likelihood self) noisy_hyperlatents in
      and_then (estimate_entropy noisy_hyperlatent_likelihood spatial_shape)
        (\<lambda>(noisy_hyperlatent_bits, noisy_hyperlatent_bpp).
      and_then (quantize rnd hyperlatents ''quantize'' None []) (\<lambda>quantized_hyperlatents.
      let quantized_hyperlatent_likelihood =
            HyperpriorDensity_forward (hyperlatent_likelihood self) quantized_hyperlatents in
      and_then (estimate_entropy quantized_hyperlatent_likelihood spatial_shape)
        (\<lambda>(quantized_hyperlatent_bits, quantized_hyperlatent_bpp).
      let hyperlatents_decoded =
            (if training self then noisy_hyperlatents else quantized_hyperlatents);
          latent_DLMM_params = synthesis_DLMM_params self hyperlatents_decoded in
      and_then (quantize rnd latents ''noise'' None noise_latents) (\<lambda>noisy_latents.
      and_then (latent_log_likelihood_DLMM self noisy_latents latent_DLMM_params)
        (\<lambda>noisy_latent_log_likelihood.
      and_then (estimate_entropy_log noisy_latent_log_likelihood spatial_shape)
        (\<lambda>(noisy_latent_bits, noisy_latent_bpp).
      and_then (quantize rnd latents ''quantize'' None []) (\<lambda>quantized_latents.
      and_then (latent_log_likelihood_DLMM self quantized_latents latent_DLMM_params)
        (\<lambda>quantized_latent_log_likelihood.
      and_then (estimate_entropy_log quantized_latent_log_likelihood spatial_shape)
        (\<lambda>(quantized_latent_bits, quantized_latent_bpp).
      let latents_decoded =
            (if training self then quantize_latents_st rnd latents None else quantized_latents);
          info = \<lparr> decoded = latents_decoded,
                   latent_nbpp = noisy_latent_bpp,
                   hyperlatent_nbpp = noisy_hyperlatent_bpp,
                   total_nbpp = fadd noisy_latent_bpp noisy_hyperlatent_bpp,
                   latent_qbpp = quantized_latent_bpp,
                   hyperlatent_qbpp = quantized_hyperlatent_bpp,
                   total_qbpp = fadd quantized_latent_bpp quantized_hyperlatent_bpp,
                   bitstring = None,
                   side_bitstring = None \<rparr>
      in Inr info)))))))))))"

section \<open>The specification's own formulations\<close>


definition rel4 :: "(real \<Rightarrow> real \<Rightarrow> bool) \<Rightarrow> tensor4 \<Rightarrow> tensor4 \<Rightarrow> bool" where
  \<comment> \<open>Two tensors of one shape whose elements are related position by position.\<close>
  "rel4 R = list_all2 (list_all2 (list_all2 (list_all2 R)))"

definition cdf_logits_stage_as_claimed :: "HyperpriorDensity \<Rightarrow> tensor3 \<Rightarrow> nat \<Rightarrow> tensor3" where
  \<comment> \<open>One stage as the specification's pseudocode reads when every \<open>logits\<close> on its
      right-hand side is the value before the stage.\<close>
  "cdf_logits_stage_as_claimed self logits k =
     elementwise3 (+)
       (elementwise3 (+) (bmm (map3 softplus (param_H self k)) logits) (param_b self k))
       (elementwise3 (*) (map3 tanh (param_a self k)) (map3 tanh logits))"

definition cdf_logits_as_claimed :: "HyperpriorDensity \<Rightarrow> tensor3 \<Rightarrow> tensor3" where
  "cdf_logits_as_claimed self x =
     foldl (cdf_logits_stage_as_claimed self) x [0..<length (filters self) + 1]"

primrec logits_after :: "HyperpriorDensity \<Rightarrow> tensor3 \<Rightarrow> nat \<Rightarrow> tensor3" where
  \<comment> \<open>The recurrence with the correction term taken at the affine value of the same
      stage: the value of \<open>logits\<close> after the first \<open>n\<close> stages.\<close>
  "logits_after self x 0 = x"
| "logits_after self x (Suc k) =
     (let affine = elementwise3 (+) (bmm (map3 softplus (param_H self k)) (logits_after self x k))
                     (param_b self k)
      in elementwise3 (+) affine (elementwise3 (*) (map3 tanh (param_a self k)) (map3 tanh affine)))"

definition single_stage_density :: HyperpriorDensity where
  \<comment> \<open>A density over one channel with \<^verbatim>\<open>filters = ()\<close>, hence one stage, whose
      parameters are \<open>H_0 = 0\<close>, \<open>a_0 = 1\<close>, \<open>b_0 = 1\<close>.\<close>
  "single_stage_density =
     \<lparr> init_scale = 10, filters = [], min_likelihood = MIN_LIKELIHOOD,
       max_likelihood = MAX_LIKELIHOOD,
       param_H = (\<lambda>k. [[[0]]]), param_a = (\<lambda>k. [[[1]]]), param_b = (\<lambda>k. [[[1]]]) \<rparr>"

definition naive_likelihood :: "HyperpriorDensity \<Rightarrow> tensor4 \<Rightarrow> tensor4" where
  \<comment> \<open>The likelihood with the difference the source keeps as a comment under
      \<^verbatim>\<open># Naive\<close>: \<^verbatim>\<open>sigmoid(cdf_upper) - sigmoid(cdf_lower)\<close>.\<close>
  "naive_likelihood self x =
     (let latents = x;
          N = length latents;
          H = size2 latents;
          W = size3 latents;
          latents = transpose latents;
          latents = map (\<lambda>channel. [concat (concat channel)]) latents;
          cdf_upper = cdf_logits self (map3 (\<lambda>v. v + 0.5) latents) True;
          cdf_lower = cdf_logits self (map3 (\<lambda>v. v - 0.5) latents) True;
          likelihood1 = elementwise3 (-) (map3 sigmoid cdf_upper) (map3 sigmoid cdf_lower);
          likelihood1 = map (\<lambda>channel. reshape_rows N H W (concat channel)) likelihood1;
          likelihood1 = transpose likelihood1;
          likelihood1 = map4 (\<lambda>v. lower_bound_toward v (min_likelihood self)) likelihood1
      in likelihood1)"

definition stabilized_difference :: "real \<Rightarrow> real \<Rightarrow> real" where
  \<comment> \<open>The combination of \<^verbatim>\<open>HyperpriorDensity.likelihood\<close> on one pair of elements.\<close>
  "stabilized_difference cdf_upper cdf_lower =
     (let sign = - sgn (cdf_upper + cdf_lower)
      in \<bar>sigmoid (sign * cdf_upper) - sigmoid (sign * cdf_lower)\<bar>)"

definition odd_density :: HyperpriorDensity where
  \<comment> \<open>A density over one channel with \<^verbatim>\<open>filters = ()\<close> and all parameters 0: its
      logits are \<open>softplus(0) * x = ln 2 * x\<close>, an odd function of \<open>x\<close>.\<close>
  "odd_density =
     \<lparr> init_scale = 10, filters = [], min_likelihood = MIN_LIKELIHOOD,
       max_likelihood = MAX_LIKELIHOOD,
       param_H = (\<lambda>k. [[[0]]]), param_a = (\<lambda>k. [[[0]]]), param_b = (\<lambda>k. [[[0]]]) \<rparr>"

definition example_externals :: externals where
  \<comment> \<open>Externals for concrete evaluation: every network is the identity map.\<close>
  "example_externals =
     \<lparr> HyperpriorAnalysis = (\<lambda>C N x. x),
       HyperpriorSynthesis_mu = (\<lambda>C N x. x),
       HyperpriorSynthesis_std = (\<lambda>C N x. x),
       HyperpriorSynthesisDLMM = (\<lambda>C N x. x),
       uniform_b = (\<lambda>k. []),
       standardized_CDF_gaussian = sigmoid,
       standardized_CDF_logistic = sigmoid \<rparr>"

definition same_shape4 :: "tensor4 \<Rightarrow> tensor4 \<Rightarrow> bool" where
  \<comment> \<open>Two tensors of rank 4 whose sizes agree in every dimension.\<close>
  "same_shape4 = rel4 (\<lambda>_ _. True)"

definition example_hyperprior :: Hyperprior where
  \<comment> \<open>A module in training mode over one channel, every network the identity map.\<close>
  "example_hyperprior =
     \<lparr> n_channels = 1,
       CodingModel.min_likelihood = MIN_LIKELIHOOD,
       CodingModel.max_likelihood = MAX_LIKELIHOOD,
       Hyperprior.bottleneck_capacity = 1,
       Hyperprior.scale_lower_bound = MIN_SCALE,
       Hyperprior.analysis_net = (\<lambda>x. x),
       synthesis_mu = (\<lambda>x. x),
       synthesis_std = (\<lambda>x. x),
       Hyperprior.hyperlatent_likelihood = single_stage_density,
       Hyperprior.standardized_CDF = sigmoid,
       Hyperprior.training = True \<rparr>"

definition example_hyperprior_DLMM :: HyperpriorDLMM where
  \<comment> \<open>A mixture module in inference mode over one channel with one component: the
      synthesis network repeats its input for the weight, the mean and the log-scale.\<close>
  "example_hyperprior_DLMM =
     \<lparr> n_channels = 1,
       CodingModel.min_likelihood = MIN_LIKELIHOOD,
       CodingModel.max_likelihood = MAX_LIKELIHOOD,
       bottleneck_capacity = 1,
       scale_lower_bound = MIN_SCALE,
       mixture_components = 1,
       analysis_net = (\<lambda>x. x),
       synthesis_DLMM_params = (\<lambda>x. map (\<lambda>sample. sample @ sample @ sample) x),
       hyperlatent_likelihood = single_stage_density,
       standardized_CDF = sigmoid,
       training = False \<rparr>"

section \<open>Properties of the quantizer\<close>

lemma broadcast_map_right:
  assumes "\<And>x. x \<in> set xs \<Longrightarrow> F x (G x) = H x"
  shows "broadcast F xs (map G xs) = map H xs"
proof (cases xs)
  case Nil
  then show ?thesis by (simp add: broadcast_def)
next
  case (Cons a as)
  show ?thesis
  proof (cases as)
    case Nil
    with Cons assms show ?thesis by (simp add: broadcast_def)
  next
    case (Cons b bs)
    with \<open>xs = a # as\<close> assms show ?thesis
      by (auto simp: broadcast_def map_idI zip_map2 zip_same_conv_map)
  qed
qed

lemma broadcast_map_left:
  assumes "\<And>x. x \<in> set xs \<Longrightarrow> F (G x) x = H x"
  shows "broadcast F (map G xs) xs = map H xs"
proof (cases xs)
  case Nil
  then show ?thesis by (simp add: broadcast_def)
next
  case (Cons a as)
  show ?thesis
  proof (cases as)
    case Nil
    with Cons assms show ?thesis by (simp add: broadcast_def)
  next
    case (Cons b bs)
    with \<open>xs = a # as\<close> assms show ?thesis
      by (auto simp: broadcast_def zip_map1 zip_same_conv_map)
  qed
qed

lemma elementwise4_map_right:
  assumes "\<And>v. f v (g v) = h v"
  shows "elementwise4 f x (map4 g x) = map4 h x"
  unfolding elementwise4_def map4_def
  by (intro broadcast_map_right) (simp add: assms)

lemma elementwise4_map_left:
  assumes "\<And>v. f (g v) v = h v"
  shows "elementwise4 f (map4 g x) x = map4 h x"
  unfolding elementwise4_def map4_def
  by (intro broadcast_map_left) (simp add: assms)

lemma map4_map4: "map4 f (map4 g x) = map4 (\<lambda>v. f (g v)) x"
  by (simp add: map4_def comp_def)

lemma straight_through_value:
  "elementwise4 (+) v
      (detach (elementwise4 (-) (map4 floor_t (map4 (\<lambda>a. rnd (a + 1 / 2)) v)) v))
     = map4 floor_t (map4 (\<lambda>a. rnd (a + 1 / 2)) v)"
proof -
  have "elementwise4 (-) (map4 floor_t (map4 (\<lambda>a. rnd (a + 1 / 2)) v)) v
          = map4 (\<lambda>a. floor_t (rnd (a + 1 / 2)) - a) v"
    unfolding map4_map4 by (rule elementwise4_map_left) simp
  moreover have "elementwise4 (+) v (map4 (\<lambda>a. floor_t (rnd (a + 1 / 2)) - a) v)
          = map4 (\<lambda>a. floor_t (rnd (a + 1 / 2))) v"
    by (rule elementwise4_map_right) simp
  ultimately show ?thesis by (simp add: detach_def map4_map4)
qed

text \<open>
  C8. For every input tensor and every optional means tensor, the forward value of the
  straight-through quantization \<open>quantize_latents_st\<close> is the value that hard
  quantization (\<open>_quantize\<close> in mode \<open>'quantize'\<close> with the same means) returns,
  however the format rounds the sums and differences that the two share.
\<close>

theorem quantize_latents_st_value:
  "quantize rnd x ''quantize'' means quantization_noise = Inr (quantize_latents_st rnd x means)"
proof (cases means)
  case None
  then show ?thesis
    by (simp add: quantize_def quantize_latents_st_def straight_through_value)
next
  case (Some m)
  then show ?thesis
    by (simp add: quantize_def quantize_latents_st_def Let_def straight_through_value)
qed


lemma round_to_nearest_eval:
  assumes "2 powr real_of_int e \<le> \<bar>v\<bar>" "\<bar>v\<bar> < 2 powr real_of_int (e + 1)"
  shows "round_to_nearest p v =
     (let ulp = 2 powr real_of_int (e - int p + 1);
          q = v / ulp;
          n = \<lfloor>q\<rfloor>
      in ulp * real_of_int
           (if q - real_of_int n < 1 / 2 then n
            else if 1 / 2 < q - real_of_int n then n + 1
            else if even n then n else n + 1))"
proof -
  from assms(1) have pos: "0 < \<bar>v\<bar>"
    by (rule order.strict_trans2 [rotated]) simp
  then have "\<lfloor>log 2 \<bar>v\<bar>\<rfloor> = e"
    using assms by (simp add: floor_log_eq_powr_iff)
  moreover from pos have "v \<noteq> 0" by auto
  ultimately show ?thesis
    by (simp add: round_to_nearest_def)
qed


lemma float32_1: "round_to_nearest 24 1 = 1"
  by (subst round_to_nearest_eval [where e = 0]) (simp_all add: powr_minus)

lemma float32_quarter: "round_to_nearest 24 (1 / 4) = 1 / 4"
  by (subst round_to_nearest_eval [where e = "- 2"]) (simp_all add: powr_minus)

lemma float32_minus_quarter: "round_to_nearest 24 (- (1 / 4)) = - (1 / 4)"
  by (subst round_to_nearest_eval [where e = "- 2"]) (simp_all add: powr_minus)

lemma float32_three_quarters: "round_to_nearest 24 (3 / 4) = 3 / 4"
  by (subst round_to_nearest_eval [where e = "- 1"]) (simp_all add: powr_minus)

lemma float32_below_1: "round_to_nearest 24 (33554431 / 33554432) = 1"
  by (subst round_to_nearest_eval [where e = "- 1"]) (simp_all add: powr_minus)


text \<open>
  The floor is taken of the rounded sum. In \<open>float32\<close> the element
  \<open>0.5 - 2\<^sup>-\<^sup>2\<^sup>5\<close>, which is below one half, has the sum \<open>1 - 2\<^sup>-\<^sup>2\<^sup>5\<close> with
  \<open>0.5\<close>; the sum rounds to \<open>1\<close>, and the element is quantized to \<open>1\<close>.
\<close>

lemma quantize_rounded_sum:
  "quantize (round_to_nearest 24) [[[[16777215 / 33554432]]]] ''quantize'' None []
     = Inr [[[[1]]]]"
  by (simp add: quantize_def map4_def floor_t_def float32_below_1)



section \<open>Properties of the CDF logits\<close>

lemma cdf_logits_stage_detach:
  "cdf_logits_stage self False logits k = cdf_logits_stage self True logits k"
  by (simp add: cdf_logits_stage_def detach_def)

lemma foldl_stages:
  "foldl (cdf_logits_stage self u) x [0..<n] = logits_after self x n"
proof (induction n)
  case 0
  show ?case by simp
next
  case (Suc n)
  then show ?case
    by (simp add: cdf_logits_stage_def detach_def Let_def)
qed

text \<open>
  C1, as stated, fails: the correction term of a stage is \<open>tanh\<close> of the value the stage
  has already computed, not of the value before the stage. With one stage, \<open>H_0 = 0\<close>,
  \<open>a_0 = b_0 = 1\<close> and \<open>x = 0\<close> the code returns \<open>1 + tanh 1 * tanh 1\<close>, the claimed
  formula \<open>1 + tanh 1 * tanh 0 = 1\<close>.
\<close>

theorem cdf_logits_counterexample:
  "cdf_logits single_stage_density [[[0]]] True = [[[1 + tanh 1 * tanh 1]]]
   \<and> cdf_logits_as_claimed single_stage_density [[[0]]] = [[[1]]]
   \<and> cdf_logits single_stage_density [[[0]]] True
       \<noteq> cdf_logits_as_claimed single_stage_density [[[0]]]"
  by (simp add: cdf_logits_def cdf_logits_as_claimed_def cdf_logits_stage_def
      cdf_logits_stage_as_claimed_def single_stage_density_def bmm_def matmul_def
      map3_def elementwise3_def broadcast_def)

text \<open>
  C1, amended. The CDF logits are the result of the stages \<open>k = 0..K\<close> in order, from
  \<open>logits = x\<close>, where stage \<open>k\<close> first computes
  \<open>affine = batched_matmul(softplus(H_k), logits) + b_k\<close> from the previous value and
  then sets \<open>logits = affine + tanh(a_k) * tanh(affine)\<close>.
\<close>

theorem cdf_logits_recurrence:
  "cdf_logits self x update_parameters = logits_after self x (length (filters self) + 1)"
  unfolding cdf_logits_def by (rule foldl_stages)

text \<open>
  C10. The flag \<open>update_parameters\<close> does not change the forward value of the CDF
  logits: detaching the parameters of a stage leaves their values as they are.
\<close>

theorem cdf_logits_update_parameters:
  "cdf_logits self x False = cdf_logits self x True"
proof -
  have "cdf_logits_stage self False = cdf_logits_stage self True"
    by (intro ext) (rule cdf_logits_stage_detach)
  then show ?thesis by (simp add: cdf_logits_def)
qed

section \<open>Construction\<close>

lemma density_init_default:
  "\<exists>d. HyperpriorDensity_init n 10 [3, 3, 3] mn mx bs = Inr d
       \<and> HyperpriorDensity.min_likelihood d = mn \<and> filters d = [3, 3, 3]"
proof -
  have "k < 4 \<Longrightarrow> [1, 3, 3, 3, 1::int] ! (k + 1) \<noteq> 0" for k :: nat
    by (auto simp: less_Suc_eq numeral_eq_Suc)
  then show ?thesis
    by (auto simp: HyperpriorDensity_init_def Let_def)
qed

text \<open>
  C9. Constructing \<open>Hyperprior\<close> or \<open>HyperpriorDLMM\<close> with a likelihood type other
  than \<open>'gaussian'\<close> and \<open>'logistic'\<close> raises an error (\<open>ValueError\<close>, or for the
  mixture model the assertion when the capacity is above 128 as well); constructing
  \<open>HyperpriorDLMM\<close> with a bottleneck capacity above 128 fails its assertion; with a
  recognised likelihood type (and, for the mixture model, a capacity of at most 128) the
  constructor returns the module.
\<close>

theorem construction_errors:
  "(likelihood_type \<noteq> ''gaussian'' \<and> likelihood_type \<noteq> ''logistic'' \<longrightarrow>
      Hyperprior_init ext capacity hyperlatent_filters mode likelihood_type lower
        = Inl (ValueError (''Unknown likelihood model: '' @ likelihood_type)))
   \<and> (likelihood_type = ''gaussian'' \<or> likelihood_type = ''logistic'' \<longrightarrow>
      (\<exists>self. Hyperprior_init ext capacity hyperlatent_filters mode likelihood_type lower
                = Inr self))
   \<and> (128 < capacity \<longrightarrow>
      HyperpriorDLMM_init ext capacity hyperlatent_filters mode likelihood_type lower components
        = Inl (AssertionError ''Will probably run out of memory!''))
   \<and> (capacity \<le> 128 \<and> likelihood_type \<noteq> ''gaussian'' \<and> likelihood_type \<noteq> ''logistic'' \<longrightarrow>
      HyperpriorDLMM_init ext capacity hyperlatent_filters mode likelihood_type lower components
        = Inl (ValueError (''Unknown likelihood model: '' @ likelihood_type)))
   \<and> (capacity \<le> 128 \<and> (likelihood_type = ''gaussian'' \<or> likelihood_type = ''logistic'') \<longrightarrow>
      (\<exists>self. HyperpriorDLMM_init ext capacity hyperlatent_filters mode likelihood_type lower
                 components = Inr self))"
proof -
  obtain d where d: "HyperpriorDensity_init
      (if mode = ''small'' then SMALL_HYPERLATENT_FILTERS else hyperlatent_filters)
      10 [3, 3, 3] MIN_LIKELIHOOD MAX_LIKELIHOOD (uniform_b ext) = Inr d"
    using density_init_default by blast
  show ?thesis
    by (auto simp: Hyperprior_init_def HyperpriorDLMM_init_def Let_def and_then_def d)
qed

theorem construction_errors_witness:
  "Hyperprior_init example_externals 220 320 ''large'' ''poisson'' MIN_SCALE
      = Inl (ValueError ''Unknown likelihood model: poisson'')
   \<and> (\<exists>self. Hyperprior_init example_externals 220 320 ''large'' ''gaussian'' MIN_SCALE = Inr self)
   \<and> HyperpriorDLMM_init example_externals 220 320 ''large'' ''gaussian'' MIN_SCALE 4
      = Inl (AssertionError ''Will probably run out of memory!'')
   \<and> HyperpriorDLMM_init example_externals 64 320 ''large'' ''poisson'' MIN_SCALE 4
      = Inl (ValueError ''Unknown likelihood model: poisson'')
   \<and> (\<exists>self. HyperpriorDLMM_init example_externals 64 320 ''large'' ''logistic'' MIN_SCALE 4
        = Inr self)"
  using
    construction_errors [where likelihood_type = "''poisson''" and ext = example_externals
      and capacity = 220 and hyperlatent_filters = 320 and mode = "''large''"
      and lower = MIN_SCALE and components = 4]
    construction_errors [where likelihood_type = "''gaussian''" and ext = example_externals
      and capacity = 220 and hyperlatent_filters = 320 and mode = "''large''"
      and lower = MIN_SCALE and components = 4]
    construction_errors [where likelihood_type = "''poisson''" and ext = example_externals
      and capacity = 64 and hyperlatent_filters = 320 and mode = "''large''"
      and lower = MIN_SCALE and components = 4]
    construction_errors [where likelihood_type = "''logistic''" and ext = example_externals
      and capacity = 64 and hyperlatent_filters = 320 and mode = "''large''"
      and lower = MIN_SCALE and components = 4]
  by simp

section \<open>The forward pass\<close>

lemma length_broadcast:
  "length xs = length ys \<Longrightarrow> length (broadcast F xs ys) = length xs"
  by (cases xs; cases ys) (auto simp: broadcast_def split: list.splits)

lemma size1_elementwise4:
  assumes "same_shape4 x y"
  shows "size1 (elementwise4 f x y) = size1 x"
proof (cases x)
  case Nil
  with assms show ?thesis
    by (simp add: same_shape4_def rel4_def elementwise4_def broadcast_def size1_def)
next
  case (Cons a as)
  with assms obtain b bs where y: "y = b # bs" and ab: "length a = length b" and
      len: "length as = length bs"
    by (auto simp: same_shape4_def rel4_def list_all2_Cons1 dest: list_all2_lengthD)
  define G where "G = broadcast (broadcast (broadcast f))"
  have "\<exists>rest. broadcast G (a # as) (b # bs) = G a b # rest"
    using len by (cases as; cases bs) (simp_all add: broadcast_def)
  then have "size1 (elementwise4 f x y) = length (G a b)"
    unfolding elementwise4_def G_def [symmetric] Cons y by (auto simp: size1_def)
  also have "\<dots> = length a"
    unfolding G_def by (rule length_broadcast [OF ab])
  finally show ?thesis using Cons by (simp add: size1_def)
qed

lemma size1_map4: "size1 (map4 f x) = size1 x"
  by (cases x) (simp_all add: size1_def map4_def)

lemma Hyperprior_forward_returns:
  "length spatial_shape = 2 \<Longrightarrow>
     \<exists>info. Hyperprior_forward rnd self latents spatial_shape noise_h noise_l = Inr info"
  by (simp add: Hyperprior_forward_def and_then_def quantize_def estimate_entropy_def Let_def)

lemma unpack_returns:
  "size1 x \<noteq> 0 \<Longrightarrow> \<exists>r. unpack_likelihood_params x conv_out = Inr r"
  by (simp add: unpack_likelihood_params_def get_num_mixtures_def and_then_def Let_def)

lemma latent_log_likelihood_DLMM_returns:
  "size1 x \<noteq> 0 \<Longrightarrow> \<exists>r. latent_log_likelihood_DLMM self x conv_out = Inr r"
  using unpack_returns [of x conv_out]
  by (auto simp: latent_log_likelihood_DLMM_def and_then_def Let_def split: prod.splits)

lemma HyperpriorDLMM_forward_returns:
  assumes "length spatial_shape = 2" "size1 latents \<noteq> 0" "same_shape4 latents noise_l"
  shows "\<exists>info. HyperpriorDLMM_forward rnd self latents spatial_shape noise_h noise_l = Inr info"
proof -
  define p where "p = synthesis_DLMM_params self
     (if HyperpriorDLMM.training self
      then map4 rnd (elementwise4 (+) (HyperpriorDLMM.analysis_net self latents) noise_h)
      else map4 floor_t
             (map4 (\<lambda>v. rnd (v + 1 / 2)) (HyperpriorDLMM.analysis_net self latents)))"
  obtain r1 where r1: "latent_log_likelihood_DLMM self
      (map4 rnd (elementwise4 (+) latents noise_l)) p = Inr r1"
    using assms
      latent_log_likelihood_DLMM_returns [of "map4 rnd (elementwise4 (+) latents noise_l)"]
    by (auto simp: size1_elementwise4 size1_map4)
  obtain r2 where r2: "latent_log_likelihood_DLMM self
      (map4 floor_t (map4 (\<lambda>v. rnd (v + 1 / 2)) latents)) p = Inr r2"
    using assms
      latent_log_likelihood_DLMM_returns [of "map4 floor_t (map4 (\<lambda>v. rnd (v + 1 / 2)) latents)"]
    by (auto simp: size1_map4)
  show ?thesis
    using assms(1) r1 r2
    by (simp add: HyperpriorDLMM_forward_def and_then_def quantize_def estimate_entropy_def
        estimate_entropy_log_def Let_def p_def)
qed

text \<open>
  C6. A forward call of \<open>Hyperprior\<close> that returns has
  \<open>decoded = quantize_latents_st(latents, latent_means)\<close>, in training and in inference
  mode alike, where \<open>latent_means\<close> is the mean synthesis of the decoded hyperlatents; a
  forward call of \<open>HyperpriorDLMM\<close> that returns has
  \<open>decoded = quantize_latents_st(latents)\<close> when training and the hard-quantized latents
  otherwise. A call with a spatial shape of two entries returns (for the mixture model: on
  latents with at least one channel).
\<close>

theorem forward_decoded:
  "(\<forall>info. Hyperprior_forward rnd self latents spatial_shape noise_h noise_l = Inr info \<longrightarrow>
      (\<exists>noisy_hyperlatents quantized_hyperlatents.
          quantize rnd (Hyperprior.analysis_net self latents) ''noise'' None noise_h
            = Inr noisy_hyperlatents
        \<and> quantize rnd (Hyperprior.analysis_net self latents) ''quantize'' None []
            = Inr quantized_hyperlatents
        \<and> decoded info = quantize_latents_st rnd latents
             (Some (synthesis_mu self
                (if Hyperprior.training self then noisy_hyperlatents
                 else quantized_hyperlatents)))))
   \<and> (length spatial_shape = 2 \<longrightarrow>
      (\<exists>info. Hyperprior_forward rnd self latents spatial_shape noise_h noise_l = Inr info))
   \<and> (\<forall>info. HyperpriorDLMM_forward rnd self' latents spatial_shape noise_h noise_l = Inr info \<longrightarrow>
      (if HyperpriorDLMM.training self' then decoded info = quantize_latents_st rnd latents None
       else quantize rnd latents ''quantize'' None [] = Inr (decoded info)))
   \<and> (length spatial_shape = 2 \<and> size1 latents \<noteq> 0 \<and> same_shape4 latents noise_l \<longrightarrow>
      (\<exists>info. HyperpriorDLMM_forward rnd self' latents spatial_shape noise_h noise_l = Inr info))"
proof (intro conjI allI impI)
  fix info
  assume "Hyperprior_forward rnd self latents spatial_shape noise_h noise_l = Inr info"
  then show "\<exists>noisy_hyperlatents quantized_hyperlatents.
          quantize rnd (Hyperprior.analysis_net self latents) ''noise'' None noise_h
            = Inr noisy_hyperlatents
        \<and> quantize rnd (Hyperprior.analysis_net self latents) ''quantize'' None []
            = Inr quantized_hyperlatents
        \<and> decoded info = quantize_latents_st rnd latents
             (Some (synthesis_mu self
                (if Hyperprior.training self then noisy_hyperlatents
                 else quantized_hyperlatents)))"
    by (auto simp: Hyperprior_forward_def and_then_def quantize_def estimate_entropy_def Let_def
        split: if_splits)
next
  assume "length spatial_shape = 2"
  then show "\<exists>info. Hyperprior_forward rnd self latents spatial_shape noise_h noise_l = Inr info"
    by (rule Hyperprior_forward_returns)
next
  fix info
  assume "HyperpriorDLMM_forward rnd self' latents spatial_shape noise_h noise_l = Inr info"
  then show "if HyperpriorDLMM.training self'
       then decoded info = quantize_latents_st rnd latents None
       else quantize rnd latents ''quantize'' None [] = Inr (decoded info)"
    by (auto simp: HyperpriorDLMM_forward_def and_then_def quantize_def estimate_entropy_def
        estimate_entropy_log_def Let_def split: if_splits sum.splits)
next
  assume "length spatial_shape = 2 \<and> size1 latents \<noteq> 0 \<and> same_shape4 latents noise_l"
  then show "\<exists>info. HyperpriorDLMM_forward rnd self' latents spatial_shape noise_h noise_l
      = Inr info"
    by (intro HyperpriorDLMM_forward_returns) simp_all
qed

theorem forward_decoded_witness:
  "(\<exists>info. Hyperprior_forward (round_to_nearest 24) example_hyperprior [[[[1 / 2]]]] [16, 16]
             [[[[1 / 4]]]] [[[[0]]]] = Inr info
        \<and> decoded info = [[[[3 / 4]]]])
   \<and> (\<exists>info. HyperpriorDLMM_forward (round_to_nearest 24) example_hyperprior_DLMM [[[[1 / 2]]]]
             [16, 16] [[[[1 / 4]]]] [[[[0]]]] = Inr info
        \<and> decoded info = [[[[1]]]])"
proof -
  note t = forward_decoded [of "round_to_nearest 24" example_hyperprior "[[[[1 / 2]]]]"
      "[16, 16]" "[[[[1 / 4]]]]" "[[[[0]]]]" example_hyperprior_DLMM]
  have s: "length [16, 16 :: int] = 2 \<and> size1 [[[[1 / 2 :: real]]]] \<noteq> 0
      \<and> same_shape4 [[[[1 / 2]]]] [[[[0]]]]"
    by (simp add: size1_def same_shape4_def rel4_def)
  from t s obtain info where
    i: "Hyperprior_forward (round_to_nearest 24) example_hyperprior [[[[1 / 2]]]] [16, 16]
          [[[[1 / 4]]]] [[[[0]]]] = Inr info"
    by blast
  from t s obtain info' where
    i': "HyperpriorDLMM_forward (round_to_nearest 24) example_hyperprior_DLMM [[[[1 / 2]]]]
           [16, 16] [[[[1 / 4]]]] [[[[0]]]] = Inr info'"
    by blast
  from t i have "decoded info = [[[[3 / 4]]]]"
    by (auto simp: quantize_def quantize_latents_st_def example_hyperprior_def elementwise4_def
        map4_def broadcast_def floor_t_def detach_def float32_three_quarters
        float32_minus_quarter float32_quarter)
  moreover from t i' have "decoded info' = [[[[1]]]]"
    by (auto simp: quantize_def example_hyperprior_DLMM_def elementwise4_def
        map4_def broadcast_def floor_t_def float32_1)
  ultimately show ?thesis using i i' by blast
qed



section \<open>The entropy estimate\<close>

lemma sum4_map4: "sum4 (map4 f t) = sum_list (map f (concat (concat (concat t))))"
  by (simp add: sum4_def map4_def map_concat)

lemma elements4_map4: "elements4 (map4 f t) = f ` elements4 t"
proof -
  have "concat (concat (concat (map4 f t))) = map f (concat (concat (concat t)))"
    by (simp add: map4_def map_concat)
  then show ?thesis by (simp add: elements4_def)
qed

lemma all4_elements4: "all4 P t \<longleftrightarrow> (\<forall>v \<in> elements4 t. P v)"
  by (auto simp: all4_def elements4_def list_all_iff)

lemma prod_list_pos:
  fixes xs :: "int list"
  shows "\<forall>s \<in> set xs. 0 < s \<Longrightarrow> 0 < prod_list xs"
  by (induction xs) simp_all

lemma le_prod_list:
  fixes xs :: "int list"
  assumes "\<forall>s \<in> set xs. 0 < s" "s \<in> set xs"
  shows "s \<le> prod_list xs"
  using assms
proof (induction xs)
  case Nil
  then show ?case by simp
next
  case (Cons a xs)
  have a: "1 \<le> a" using Cons.prems(1) by simp
  have p: "1 \<le> prod_list xs" using prod_list_pos [of xs] Cons.prems(1) by simp
  show ?case
  proof (cases "s = a")
    case True
    with a p show ?thesis using mult_left_mono [of 1 "prod_list xs" a] by simp
  next
    case False
    with Cons have "s \<le> prod_list xs" by simp
    also have "\<dots> \<le> a * prod_list xs" using a p mult_right_mono [of 1 a "prod_list xs"] by simp
    finally show ?thesis by simp
  qed
qed

lemma np_prod_exact:
  assumes "\<forall>s \<in> set shape. 0 < s" "prod_list shape < 2 ^ 63"
  shows "np_prod shape = prod_list shape"
proof -
  have "list_all (\<lambda>s. - (2 ^ 63) \<le> s \<and> s < 2 ^ 63) shape"
    unfolding list_all_iff
  proof
    fix s assume s: "s \<in> set shape"
    then have "s \<le> prod_list shape" using assms(1) by (intro le_prod_list)
    moreover have "0 < s" using s assms(1) by simp
    ultimately show "- (2 ^ 63) \<le> s \<and> s < 2 ^ 63" using assms(2) by simp
  qed
  moreover have "0 < prod_list shape" using assms(1) by (rule prod_list_pos)
  ultimately show ?thesis using assms(2) by (simp add: np_prod_def Let_def)
qed

text \<open>
  C5, as stated, fails: on the likelihood tensor with the single entry \<open>1\<close> (batch size
  1, spatial shape \<open>(1, 1)\<close>) the estimator takes \<open>log(1 + 1e-9) > 0\<close> and returns a
  negative number of bits per pixel.
\<close>

theorem estimate_entropy_counterexample:
  "MIN_LIKELIHOOD \<le> 1
   \<and> estimate_entropy [[[[1]]]] [1, 1]
       = Inr (Some (- (ln (1 + 1 / 10 ^ 9) / ln 2)), Some (- (ln (1 + 1 / 10 ^ 9) / ln 2)))
   \<and> - (ln (1 + 1 / 10 ^ 9) / ln 2) < (0::real)"
  by (simp add: MIN_LIKELIHOOD_def estimate_entropy_def map4_def sum4_def all4_def fdiv_def
      np_prod_def Let_def)

text \<open>
  The pixel count is a product in \<open>int64\<close>: for the spatial shape \<open>(2^32, 2^31)\<close> it
  wraps to \<open>-2^63\<close>, and the bits per pixel of the likelihood \<open>1/2\<close> are negative.
\<close>

lemma estimate_entropy_wraps:
  "\<exists>n_bits bpp. estimate_entropy [[[[1 / 2]]]] [2 ^ 32, 2 ^ 31] = Inr (Some n_bits, Some bpp)
      \<and> bpp < 0"
proof -
  have "ln (1 / 2 + 1 / 10 ^ 9 :: real) < 0"
    by (simp add: ln_less_zero_iff)
  then show ?thesis
    by (simp add: estimate_entropy_def map4_def sum4_def all4_def fdiv_def np_prod_def
        divide_less_0_iff zero_less_divide_iff)
qed

text \<open>
  C5, amended. For a likelihood tensor of at least one sample all of whose entries lie in
  \<open>[min_likelihood, 1 - 1e-9]\<close> and a spatial shape of two positive integers whose product
  is below \<open>2^63\<close>, \<open>_estimate_entropy\<close> returns, both of its results are finite, and
  the bits per pixel it returns are not negative.
\<close>

theorem estimate_entropy_nonneg:
  assumes "likelihood \<noteq> []"
    and "\<forall>v \<in> elements4 likelihood. MIN_LIKELIHOOD \<le> v \<and> v \<le> 1 - 1 / 10 ^ 9"
    and "length spatial_shape = 2"
    and "\<forall>s \<in> set spatial_shape. 0 < s"
    and "prod_list spatial_shape < 2 ^ 63"
  shows "\<exists>n_bits bpp. estimate_entropy likelihood spatial_shape = Inr (Some n_bits, Some bpp)
      \<and> 0 \<le> bpp"
proof -
  define S where "S = sum4 (map4 ln (map4 (\<lambda>v. v + 1 / 10 ^ 9) likelihood))"
  define B where "B = S / (real (length likelihood) * (- ln 2))"
  have pos: "0 < v + 1 / 10 ^ 9" and le: "v + 1 / 10 ^ 9 \<le> 1"
    if "v \<in> elements4 likelihood" for v
    using that assms(2)
    by (auto simp: MIN_LIKELIHOOD_def intro: add_pos_pos order.strict_trans2)
  have a4: "all4 (\<lambda>v. 0 < v) (map4 (\<lambda>v. v + 1 / 10 ^ 9) likelihood)"
    using pos by (auto simp: all4_elements4 elements4_map4)
  have "ln (v + 1 / 10 ^ 9) \<le> 0" if "v \<in> elements4 likelihood" for v
    using pos [OF that] le [OF that] by (simp add: ln_le_zero_iff)
  then have "S \<le> 0"
    unfolding S_def map4_map4 sum4_map4 elements4_def
    by (intro sum_list_nonpos) auto
  moreover have len: "0 < real (length likelihood)"
    using assms(1) by simp
  ultimately have "S / (real (length likelihood) * ln 2) \<le> 0"
    by (simp add: divide_nonpos_pos)
  then have bits: "0 \<le> B"
    by (simp add: B_def)
  have np: "np_prod spatial_shape = prod_list spatial_shape"
    using assms(4,5) by (rule np_prod_exact)
  have pp: "0 < prod_list spatial_shape"
    using assms(4) by (rule prod_list_pos)
  with bits have "0 \<le> B / real_of_int (prod_list spatial_shape)"
    by (simp add: zero_le_divide_iff)
  moreover have "estimate_entropy likelihood spatial_shape
      = Inr (Some B, Some (B / real_of_int (prod_list spatial_shape)))"
    using assms(1,3) a4 pp
    by (simp add: estimate_entropy_def Let_def S_def B_def fdiv_def np)
  ultimately show ?thesis by blast
qed

theorem estimate_entropy_nonneg_witness:
  "\<exists>n_bits bpp. estimate_entropy [[[[1 / 2]]]] [16, 16] = Inr (Some n_bits, Some bpp) \<and> 0 \<le> bpp"
proof -
  have h: "[[[[1 / 2 :: real]]]] \<noteq> []"
    "\<forall>v \<in> elements4 [[[[1 / 2]]]]. MIN_LIKELIHOOD \<le> v \<and> v \<le> 1 - 1 / 10 ^ 9"
    "length [16, 16 :: int] = 2" "\<forall>s \<in> set [16, 16 :: int]. 0 < s"
    "prod_list [16, 16 :: int] < 2 ^ 63"
    by (simp_all add: elements4_def MIN_LIKELIHOOD_def)
  show ?thesis by (rule estimate_entropy_nonneg [OF h])
qed

section \<open>The stabilized difference of sigmoids\<close>

lemma sigmoid_mono: "u \<le> v \<Longrightarrow> sigmoid u \<le> sigmoid v"
  by (simp add: sigmoid_def frac_le add_pos_pos)

lemma sigmoid_strict_mono: "u < v \<Longrightarrow> sigmoid u < sigmoid v"
  by (simp add: sigmoid_def frac_less2 add_pos_pos)

lemma sigmoid_neg: "sigmoid (- v) = 1 - sigmoid v"
proof -
  have "exp (- v) * (1 + exp v) = 1 + exp (- v)"
    by (simp add: algebra_simps flip: exp_add)
  then show ?thesis
    by (simp add: sigmoid_def field_simps add_pos_pos less_imp_neq [OF add_pos_pos, symmetric])
qed

lemma stabilized_difference_eq:
  assumes "cdf_lower \<le> cdf_upper" "cdf_upper + cdf_lower \<noteq> 0"
  shows "stabilized_difference cdf_upper cdf_lower = sigmoid cdf_upper - sigmoid cdf_lower"
proof (cases "0 < cdf_upper + cdf_lower")
  case True
  then show ?thesis
    using sigmoid_mono [OF assms(1)]
    by (simp add: stabilized_difference_def sigmoid_neg)
next
  case False
  with assms(2) have "cdf_upper + cdf_lower < 0" by simp
  then show ?thesis
    using sigmoid_mono [OF assms(1)]
    by (simp add: stabilized_difference_def)
qed

lemma stabilized_difference_zero_sum:
  "stabilized_difference cdf_upper (- cdf_upper) = 0"
  by (simp add: stabilized_difference_def)

lemma sigmoid_ln2_half: "4 / 7 < sigmoid (ln 2 / 2)"
proof -
  define e :: real where "e = exp (- (ln 2 / 2))"
  have "e * e = exp (- ln 2)"
    unfolding e_def by (simp flip: exp_add)
  then have sq: "e * e = 1 / 2"
    by (simp add: exp_minus)
  have pos: "0 < e"
    by (simp add: e_def)
  have "e < 3 / 4"
  proof (rule ccontr)
    assume "\<not> e < 3 / 4"
    then have "3 / 4 \<le> e" by simp
    then have "(3 / 4) * (3 / 4) \<le> e * e"
      by (intro mult_mono) simp_all
    with sq show False by simp
  qed
  then have "1 / (1 + 3 / 4) < 1 / (1 + e)"
    using pos by (intro divide_strict_left_mono) (simp_all add: add_pos_pos)
  then show ?thesis
    by (simp add: sigmoid_def e_def)
qed

lemma ln2_half_bound: "MIN_LIKELIHOOD < sigmoid (ln 2 / 2) - sigmoid (- (ln 2 / 2))"
  using sigmoid_ln2_half by (simp add: sigmoid_neg MIN_LIKELIHOOD_def)

lemma cdf_logits_odd_density:
  "cdf_logits odd_density [[[v]]] True = [[[ln 2 * v]]]"
  by (simp add: cdf_logits_def cdf_logits_stage_def odd_density_def bmm_def matmul_def
      map3_def elementwise3_def broadcast_def softplus_def)

lemma flatten_single:
  "map (\<lambda>channel. [concat (concat channel)]) (transpose [[[[v]]]]) = [[[v::real]]]"
  by simp

lemma unflatten_single:
  "transpose (map (\<lambda>channel. reshape_rows (length [[[[v]]]]) (size2 [[[[v]]]]) (size3 [[[[v]]]])
      (concat channel)) [[[w]]]) = [[[[w::real]]]]"
  by (simp add: reshape_rows_def size2_def size3_def size1_def)

lemma map3_single: "map3 f [[[v]]] = [[[f v]]]"
  by (simp add: map3_def)

lemma map4_single: "map4 f [[[[v]]]] = [[[[f v]]]]"
  by (simp add: map4_def)

lemma elementwise3_single: "elementwise3 f [[[u]]] [[[v]]] = [[[f u v]]]"
  by (simp add: elementwise3_def broadcast_def)

lemma stabilized_single:
  "map3 abs (elementwise3 (-)
      (map3 sigmoid (elementwise3 (*)
         (detach (map3 uminus (map3 sgn (elementwise3 (+) [[[u]]] [[[l]]])))) [[[u]]]))
      (map3 sigmoid (elementwise3 (*)
         (detach (map3 uminus (map3 sgn (elementwise3 (+) [[[u]]] [[[l]]])))) [[[l]]])))
   = [[[stabilized_difference u l]]]"
  by (simp add: map3_single elementwise3_single detach_def stabilized_difference_def)

lemma min_likelihood_odd_density: "min_likelihood odd_density = MIN_LIKELIHOOD"
  by (simp add: odd_density_def)

lemma likelihood_odd_density:
  "HyperpriorDensity_likelihood odd_density [[[[0]]]] = [[[[MIN_LIKELIHOOD]]]]"
proof -
  have "stabilized_difference (ln 2 * (0 + 0.5)) (ln 2 * (0 - 0.5)) = 0"
    using stabilized_difference_zero_sum [of "ln 2 * (1 / 2)"] by simp
  then show ?thesis
    unfolding HyperpriorDensity_likelihood_def Let_def flatten_single map3_single
      cdf_logits_odd_density stabilized_single unflatten_single map4_single
      min_likelihood_odd_density
    by (simp add: lower_bound_toward_def MIN_LIKELIHOOD_def)
qed

lemma naive_likelihood_odd_density:
  "naive_likelihood odd_density [[[[0]]]] = [[[[sigmoid (ln 2 / 2) - sigmoid (- (ln 2 / 2))]]]]"
proof -
  have "lower_bound_toward (sigmoid (ln 2 * (0 + 0.5)) - sigmoid (ln 2 * (0 - 0.5))) MIN_LIKELIHOOD
          = sigmoid (ln 2 / 2) - sigmoid (- (ln 2 / 2))"
    using ln2_half_bound by (simp add: lower_bound_toward_def)
  then show ?thesis
    unfolding naive_likelihood_def Let_def flatten_single map3_single
      cdf_logits_odd_density elementwise3_single unflatten_single map4_single
      min_likelihood_odd_density
    by simp
qed

text \<open>
  C3. The stabilized combination agrees with the naive difference
  \<open>sigmoid(cdf_upper) - sigmoid(cdf_lower)\<close> whenever \<open>cdf_upper + cdf_lower \<noteq> 0\<close>
  (lemma \<open>stabilized_difference_eq\<close>), but where the two logits sum to zero the sign is
  0 and the combination is 0 (lemma \<open>stabilized_difference_zero_sum\<close>). Evaluated on the
  density with all parameters 0 at the hyperlatent \<open>0\<close>: the logits are \<open>ln 2 / 2\<close> and
  \<open>- ln 2 / 2\<close>, the likelihood returned is the floor \<open>min_likelihood\<close>, and the naive
  difference is larger.
\<close>

theorem likelihood_symmetric_logits:
  "cdf_logits odd_density [[[0 + 0.5]]] True = [[[ln 2 / 2]]]
   \<and> cdf_logits odd_density [[[0 - 0.5]]] True = [[[- (ln 2 / 2)]]]
   \<and> HyperpriorDensity_likelihood odd_density [[[[0]]]] = [[[[MIN_LIKELIHOOD]]]]
   \<and> naive_likelihood odd_density [[[[0]]]] = [[[[sigmoid (ln 2 / 2) - sigmoid (- (ln 2 / 2))]]]]
   \<and> MIN_LIKELIHOOD < sigmoid (ln 2 / 2) - sigmoid (- (ln 2 / 2))"
  using likelihood_odd_density naive_likelihood_odd_density ln2_half_bound
  by (simp add: cdf_logits_odd_density)



end
